theory Spec2Isabelle
  imports Complex_Main "HOL-Library.Sublist"
begin

section \<open>The Faster-Whisper transcription service (whisper-service/main.py)\<close>

text \<open>
  The two request handlers \<^verbatim>\<open>transcribe_audio\<close> and \<^verbatim>\<open>transcribe_realtime\<close> are
  embedded as functions that take the state of the world and return the outcome together
  with the new state. Python floats are idealised as \<^typ>\<open>real\<close> (no rounding, no NaN,
  no infinities), a Python \<^verbatim>\<open>str\<close> is a \<^typ>\<open>string\<close> whose characters are code points
  below 256, and an exception caught by \<^verbatim>\<open>except Exception as e\<close> is the string
  \<^verbatim>\<open>str(e)\<close>. Log output is not modelled.
\<close>

subsection \<open>Python strings\<close>

definition isspace :: "char \<Rightarrow> bool" where
  \<comment> \<open>\<^verbatim>\<open>str.isspace\<close> on one character: the whitespace code points below 256\<close>
  "isspace c \<longleftrightarrow> c \<in> set [CHR 0x09, CHR 0x0A, CHR 0x0B, CHR 0x0C, CHR 0x0D,
                        CHR 0x1C, CHR 0x1D, CHR 0x1E, CHR 0x1F, CHR 0x20,
                        CHR 0x85, CHR 0xA0]"

definition lstrip :: "string \<Rightarrow> string" where
  "lstrip s = dropWhile isspace s"

definition rstrip :: "string \<Rightarrow> string" where
  "rstrip s = rev (dropWhile isspace (rev s))"

definition strip :: "string \<Rightarrow> string" where
  \<comment> \<open>\<^verbatim>\<open>str.strip()\<close>: whitespace is removed at both ends\<close>
  "strip s = rstrip (lstrip s)"

definition startswith :: "string \<Rightarrow> string \<Rightarrow> bool" where
  \<comment> \<open>\<^verbatim>\<open>s.startswith(p)\<close>\<close>
  "startswith s p \<longleftrightarrow> prefix p s"

fun join :: "string \<Rightarrow> string list \<Rightarrow> string" where
  \<comment> \<open>\<^verbatim>\<open>sep.join(xs)\<close>; the handlers do not call it, the theorems about the text do\<close>
  "join sep [] = []"
| "join sep [x] = x"
| "join sep (x # y # ys) = x @ sep @ join sep (y # ys)"

subsection \<open>The model capability and its segments\<close>

type_synonym path = string
type_synonym bytes = string

record segment =
  seg_start :: real
  seg_end :: real
  seg_text :: string
  avg_logprob :: "real option"  \<comment> \<open>\<open>None\<close>: the object has no such attribute\<close>

record transcription_info =
  info_language :: string

record transcribe_args =
  audio :: path
  language :: "string option"
  beam_size :: nat
  best_of :: nat
  temperature :: real
  condition_on_previous_text :: "bool option"  \<comment> \<open>\<open>None\<close>: argument not passed\<close>
  vad_filter :: bool
  vad_parameters :: "(string \<times> nat) list option"

text \<open>
  The state of the world: the files on disk, and a history of the calls made to the model
  (the history is not in the source; it records that an inference was started).
\<close>

record world =
  files :: "path \<rightharpoonup> bytes"
  inference_calls :: "transcribe_args list"

text \<open>
  The generator returned by \<^verbatim>\<open>WhisperModel.transcribe\<close> is lazy: each \<^verbatim>\<open>next\<close> yields
  a segment (\<open>Inr\<close>) or raises (\<open>Inl\<close>, with the message); the list ends where the
  generator is exhausted. The call itself raises or returns the generator and the info.
\<close>

type_synonym segment_stream = "(string + segment) list"

type_synonym whisper_model =
  "world \<Rightarrow> transcribe_args \<Rightarrow> string + (segment_stream \<times> transcription_info)"

definition fixed_model ::
  "string + (segment_stream \<times> transcription_info) \<Rightarrow> whisper_model" where
  \<comment> \<open>a model that answers every call the same way, to run the handlers on examples\<close>
  "fixed_model outcome w a = outcome"

definition getattr_avg_logprob :: "segment \<Rightarrow> real" where
  \<comment> \<open>\<^verbatim>\<open>getattr(segment, 'avg_logprob', 0.0)\<close>\<close>
  "getattr_avg_logprob s = (case avg_logprob s of Some x \<Rightarrow> x | None \<Rightarrow> 0.0)"

subsection \<open>Requests, responses and the temporary file\<close>

record upload_file =
  filename :: string
  content_type :: "string option"  \<comment> \<open>\<open>None\<close>: the part carries no Content-Type header\<close>
  read :: "string + bytes"  \<comment> \<open>what \<^verbatim>\<open>await read()\<close> does: raise or return the bytes\<close>

text \<open>
  What a handler raises: an \<^verbatim>\<open>HTTPException\<close> with its status code and detail, or the
  \<^verbatim>\<open>AttributeError\<close> of a method call on \<^verbatim>\<open>None\<close>, which no \<^verbatim>\<open>except\<close> of the handler catches.
\<close>

datatype handler_exception = HTTPException nat string | AttributeError string

record segment_data =
  sd_start :: real
  sd_end :: real
  sd_text :: string
  sd_confidence :: real

record transcription_response =
  resp_text :: string
  resp_language :: string
  resp_confidence :: real
  resp_duration :: real
  resp_segments :: "segment_data list"

record realtime_response =
  rt_text :: string
  rt_language :: string
  rt_confidence :: real
  rt_is_final :: bool

text \<open>
  What \<^verbatim>\<open>tempfile.NamedTemporaryFile(delete=False, suffix=".wav")\<close> and the write do in
  this request: the name chosen, and whether creating or writing the file raises.
\<close>

record tempfile_env =
  tmp_name :: path
  create_fault :: "string option"
  write_fault :: "string option"

definition stage :: "tempfile_env \<Rightarrow> upload_file \<Rightarrow> world \<Rightarrow> (string + path \<times> bytes) \<times> world" where
  \<comment> \<open>the \<^verbatim>\<open>with tempfile.NamedTemporaryFile(...)\<close> block of both handlers\<close>
  "stage env f w =
     (case create_fault env of
        Some e \<Rightarrow> (Inl e, w)
      | None \<Rightarrow>
          let w1 = w\<lparr>files := (files w)(tmp_name env \<mapsto> [])\<rparr> in
          (case read f of
             Inl e \<Rightarrow> (Inl e, w1)
           | Inr content \<Rightarrow>
               (case write_fault env of
                  Some e \<Rightarrow> (Inl e, w1)
                | None \<Rightarrow>
                    (Inr (tmp_name env, content),
                     w1\<lparr>files := (files w1)(tmp_name env \<mapsto> content)\<rparr>))))"

definition unlink :: "path \<Rightarrow> world \<Rightarrow> (string + unit) \<times> world" where
  \<comment> \<open>\<^verbatim>\<open>os.unlink\<close>: raises when there is no such file\<close>
  "unlink p w =
     (if p \<in> dom (files w) then (Inr (), w\<lparr>files := (files w)(p := None)\<rparr>)
      else (Inl (''[Errno 2] No such file or directory: '' @ [CHR 0x27] @ p @ [CHR 0x27]), w))"

definition run_model :: "whisper_model \<Rightarrow> transcribe_args \<Rightarrow> world \<Rightarrow>
    (string + segment_stream \<times> transcription_info) \<times> world" where
  \<comment> \<open>\<^verbatim>\<open>whisper_model.transcribe(...)\<close>, recorded in the history\<close>
  "run_model m a w = (m w a, w\<lparr>inference_calls := inference_calls w @ [a]\<rparr>)"

definition language_hint :: "string \<Rightarrow> string option" where
  \<comment> \<open>\<^verbatim>\<open>language if language != "auto" else None\<close>\<close>
  "language_hint lang = (if lang \<noteq> ''auto'' then Some lang else None)"

definition confidence_score :: "real \<Rightarrow> real" where
  \<comment> \<open>\<^verbatim>\<open>max(0.0, min(1.0, (avg_confidence + 5) / 5))\<close>\<close>
  "confidence_score avg = max 0.0 (min 1.0 ((avg + 5) / 5))"

subsection \<open>POST /transcribe\<close>

definition accurate_args :: "path \<Rightarrow> string \<Rightarrow> transcribe_args" where
  "accurate_args p lang =
     \<lparr>audio = p, language = language_hint lang, beam_size = 5, best_of = 5,
      temperature = 0.0, condition_on_previous_text = Some False, vad_filter = True,
      vad_parameters = Some [(''min_silence_duration_ms'', 500)]\<rparr>"

definition segment_dict :: "segment \<Rightarrow> segment_data" where
  "segment_dict s =
     \<lparr>sd_start = seg_start s, sd_end = seg_end s, sd_text = strip (seg_text s),
      sd_confidence = getattr_avg_logprob s\<rparr>"

fun process_segments ::
  "segment_stream \<Rightarrow> segment_data list \<Rightarrow> string \<Rightarrow> real \<Rightarrow>
     string + (segment_data list \<times> string \<times> real)" where
  \<comment> \<open>the \<^verbatim>\<open>for segment in segments\<close> loop, on
      \<^verbatim>\<open>transcript_segments\<close>, \<^verbatim>\<open>full_text\<close> and \<^verbatim>\<open>total_duration\<close>\<close>
  "process_segments [] ts full_text total_duration = Inr (ts, full_text, total_duration)"
| "process_segments (Inl e # rest) ts full_text total_duration = Inl e"
| "process_segments (Inr s # rest) ts full_text total_duration =
     process_segments rest (ts @ [segment_dict s])
       (full_text @ strip (seg_text s) @ '' '') (max total_duration (seg_end s))"

definition avg_confidence :: "segment_data list \<Rightarrow> real" where
  \<comment> \<open>\<^verbatim>\<open>sum(...) / len(transcript_segments) if transcript_segments else 0\<close>\<close>
  "avg_confidence ts =
     (if ts \<noteq> [] then sum_list (map sd_confidence ts) / real (length ts) else 0)"

definition transcribe_audio_body ::
  "tempfile_env \<Rightarrow> whisper_model \<Rightarrow> upload_file \<Rightarrow> string \<Rightarrow> world \<Rightarrow>
     (string + transcription_response) \<times> world" where
  \<comment> \<open>the body of the \<^verbatim>\<open>try\<close>; \<open>Inl e\<close> is the exception that reaches \<^verbatim>\<open>except\<close>\<close>
  "transcribe_audio_body env m f lang w =
     (case stage env f w of
        (Inl e, w1) \<Rightarrow> (Inl e, w1)
      | (Inr (temp_file_path, content), w1) \<Rightarrow>
          (case run_model m (accurate_args temp_file_path lang) w1 of
             (Inl e, w2) \<Rightarrow> (Inl e, w2)
           | (Inr (segments, info), w2) \<Rightarrow>
               (case process_segments segments [] [] 0 of
                  Inl e \<Rightarrow> (Inl e, w2)
                | Inr (transcript_segments, full_text, total_duration) \<Rightarrow>
                    (case unlink temp_file_path w2 of
                       (Inl e, w3) \<Rightarrow> (Inl e, w3)
                     | (Inr u, w3) \<Rightarrow>
                         (Inr \<lparr>resp_text = strip full_text,
                               resp_language = info_language info,
                               resp_confidence =
                                 confidence_score (avg_confidence transcript_segments),
                               resp_duration = total_duration,
                               resp_segments = transcript_segments\<rparr>, w3)))))"

definition transcribe_audio ::
  "tempfile_env \<Rightarrow> whisper_model option \<Rightarrow> upload_file \<Rightarrow> string \<Rightarrow> world \<Rightarrow>
     (handler_exception + transcription_response) \<times> world" where
  "transcribe_audio env whisper f lang w =
     (case whisper of
        None \<Rightarrow>
          (Inl (HTTPException 503 ''Whisper model not loaded. Check service health.''), w)
      | Some m \<Rightarrow>
          (case content_type f of
             None \<Rightarrow>
               (Inl (AttributeError
                      (CHR 0x27 # ''NoneType'' @ CHR 0x27 # '' object has no attribute '' @
                       CHR 0x27 # ''startswith'' @ [CHR 0x27])), w)
           | Some ctype \<Rightarrow>
               if \<not> startswith ctype ''audio/'' then
                 (Inl (HTTPException 400
                        (''Invalid file type: '' @ ctype @ ''. Expected audio file.'')), w)
               else
                 (case transcribe_audio_body env m f lang w of
                    (Inl e, w') \<Rightarrow>
                      (Inl (HTTPException 500 (''Transcription failed: '' @ e)), w')
                  | (Inr result, w') \<Rightarrow> (Inr result, w'))))"

subsection \<open>POST /transcribe-realtime\<close>

definition fast_args :: "path \<Rightarrow> string \<Rightarrow> transcribe_args" where
  "fast_args p lang =
     \<lparr>audio = p, language = language_hint lang, beam_size = 1, best_of = 1,
      temperature = 0.0, condition_on_previous_text = None, vad_filter = False,
      vad_parameters = None\<rparr>"

fun first_segment :: "segment_stream \<Rightarrow> string + (string \<times> real)" where
  \<comment> \<open>the loop that ends with \<^verbatim>\<open>break\<close>, on \<^verbatim>\<open>text = ""\<close> and \<^verbatim>\<open>confidence = 0.0\<close>\<close>
  "first_segment [] = Inr ([], 0.0)"
| "first_segment (Inl e # rest) = Inl e"
| "first_segment (Inr s # rest) = Inr ([] @ strip (seg_text s) @ '' '', getattr_avg_logprob s)"

definition transcribe_realtime_body ::
  "tempfile_env \<Rightarrow> whisper_model \<Rightarrow> upload_file \<Rightarrow> string \<Rightarrow> world \<Rightarrow>
     (string + realtime_response) \<times> world" where
  "transcribe_realtime_body env m f lang w =
     (case stage env f w of
        (Inl e, w1) \<Rightarrow> (Inl e, w1)
      | (Inr (temp_file_path, content), w1) \<Rightarrow>
          (case run_model m (fast_args temp_file_path lang) w1 of
             (Inl e, w2) \<Rightarrow> (Inl e, w2)
           | (Inr (segments, info), w2) \<Rightarrow>
               (case first_segment segments of
                  Inl e \<Rightarrow> (Inl e, w2)
                | Inr (txt, confidence) \<Rightarrow>
                    (case unlink temp_file_path w2 of
                       (Inl e, w3) \<Rightarrow> (Inl e, w3)
                     | (Inr u, w3) \<Rightarrow>
                         (Inr \<lparr>rt_text = strip txt,
                               rt_language = info_language info,
                               rt_confidence = max 0.0 (min 1.0 ((confidence + 5) / 5)),
                               rt_is_final = True\<rparr>, w3)))))"

definition transcribe_realtime ::
  "tempfile_env \<Rightarrow> whisper_model option \<Rightarrow> upload_file \<Rightarrow> string \<Rightarrow> world \<Rightarrow>
     (handler_exception + realtime_response) \<times> world" where
  "transcribe_realtime env whisper f lang w =
     (case whisper of
        None \<Rightarrow> (Inl (HTTPException 503 ''Whisper model not loaded''), w)
      | Some m \<Rightarrow>
          (case transcribe_realtime_body env m f lang w of
             (Inl e, w') \<Rightarrow> (Inl (HTTPException 500 e), w')
           | (Inr result, w') \<Rightarrow> (Inr result, w')))"

section \<open>Facts about the string operations\<close>

lemma isspace_space: "isspace CHR '' ''"
  by (simp add: isspace_def)

lemma strip_Nil: "strip [] = []"
  by (simp add: strip_def lstrip_def rstrip_def)

lemma rstrip_snoc_space: "isspace c \<Longrightarrow> rstrip (s @ [c]) = rstrip s"
  by (simp add: rstrip_def)

lemma lstrip_snoc_space:
  "isspace c \<Longrightarrow> lstrip (s @ [c]) = (if \<forall>x\<in>set s. isspace x then [] else lstrip s @ [c])"
  by (simp add: lstrip_def dropWhile_append)

lemma lstrip_all_space: "\<forall>x\<in>set s. isspace x \<Longrightarrow> lstrip s = []"
  by (simp add: lstrip_def)

lemma strip_snoc_space: "isspace c \<Longrightarrow> strip (s @ [c]) = strip s"
  by (simp add: strip_def lstrip_snoc_space rstrip_snoc_space lstrip_all_space rstrip_def)

lemma lstrip_no_leading: "lstrip s = [] \<or> \<not> isspace (hd (lstrip s))"
  unfolding lstrip_def by (metis hd_dropWhile)

lemma rstrip_no_trailing: "rstrip s = [] \<or> \<not> isspace (last (rstrip s))"
  unfolding rstrip_def by (metis hd_dropWhile last_rev rev_is_Nil_conv)

lemma lstrip_id: "s = [] \<or> \<not> isspace (hd s) \<Longrightarrow> lstrip s = s"
  unfolding lstrip_def by (cases s) auto

lemma rstrip_id: "s = [] \<or> \<not> isspace (last s) \<Longrightarrow> rstrip s = s"
  unfolding rstrip_def by (cases s rule: rev_cases) auto

lemma hd_rstrip: "rstrip s \<noteq> [] \<Longrightarrow> hd (rstrip s) = hd s"
  unfolding rstrip_def
  by (metis append_is_Nil_conv hd_append2 rev_append rev_rev_ident takeWhile_dropWhile_id)

lemma strip_strip: "strip (strip s) = strip s"
proof -
  have a: "rstrip (lstrip s) = [] \<or> \<not> isspace (hd (rstrip (lstrip s)))"
  proof (cases "rstrip (lstrip s) = []")
    case True
    then show ?thesis by simp
  next
    case False
    then have "lstrip s \<noteq> []" by (auto simp: rstrip_def)
    with lstrip_no_leading [of s] have "\<not> isspace (hd (lstrip s))" by simp
    with hd_rstrip [OF False] show ?thesis by simp
  qed
  have "lstrip (rstrip (lstrip s)) = rstrip (lstrip s)"
    using a by (rule lstrip_id)
  moreover have "rstrip (rstrip (lstrip s)) = rstrip (lstrip s)"
    using rstrip_no_trailing by (rule rstrip_id)
  ultimately show ?thesis by (simp add: strip_def)
qed

lemma concat_sep_join:
  "ts \<noteq> [] \<Longrightarrow> concat (map (\<lambda>t. t @ sep) ts) = join sep ts @ sep"
  by (induction sep ts rule: join.induct) auto

lemma strip_concat_join:
  "strip (concat (map (\<lambda>t. t @ '' '') ts)) = strip (join '' '' ts)"
proof (cases "ts = []")
  case True
  then show ?thesis by simp
next
  case False
  then show ?thesis
    using strip_snoc_space [OF isspace_space, of "join '' '' ts"]
    by (simp add: concat_sep_join)
qed

section \<open>Facts about the segment loops and the staging\<close>

lemma process_segments_map_Inr:
  "process_segments (map Inr segs) ts ft td =
     Inr (ts @ map segment_dict segs,
          ft @ concat (map (\<lambda>s. strip (seg_text s) @ '' '') segs),
          fold (\<lambda>s d. max d (seg_end s)) segs td)"
  by (induction segs arbitrary: ts ft td) simp_all

lemma process_segments_Inr_stream:
  "process_segments stream ts ft td = Inr res \<Longrightarrow> \<exists>segs. stream = map Inr segs"
proof (induction stream ts ft td rule: process_segments.induct)
  case (1 ts ft td)
  then show ?case by simp
next
  case (2 e rest ts ft td)
  then show ?case by simp
next
  case (3 s rest ts ft td)
  from "3.prems" have "process_segments rest (ts @ [segment_dict s])
      (ft @ strip (seg_text s) @ '' '') (max td (seg_end s)) = Inr res" by simp
  from "3.IH" [OF this] obtain segs where "rest = map Inr segs" by blast
  then show ?case by (intro exI [of _ "s # segs"]) simp
qed

lemma fold_max_end:
  "fold (\<lambda>s d. max d (seg_end s)) segs td = Max (insert td (seg_end ` set segs))"
proof (induction segs arbitrary: td)
  case Nil
  then show ?case by simp
next
  case (Cons s segs)
  have "Max (insert (max td (seg_end s)) (seg_end ` set segs))
      = Max (insert td (insert (seg_end s) (seg_end ` set segs)))"
    by (cases "segs = []") (simp_all add: max.assoc)
  with Cons show ?case by simp
qed

lemma stage_Inr:
  "stage env f w = (Inr (p, c), w1) \<Longrightarrow>
     p = tmp_name env \<and> files w1 = (files w)(p \<mapsto> c) \<and>
     inference_calls w1 = inference_calls w \<and>
     create_fault env = None \<and> read f = Inr c \<and> write_fault env = None"
  by (auto simp: stage_def Let_def split: option.splits sum.splits)

lemma unlink_staged:
  "files w p = Some c \<Longrightarrow> unlink p w = (Inr (), w\<lparr>files := (files w)(p := None)\<rparr>)"
  by (auto simp: unlink_def)

lemma confidence_score_bounds: "0 \<le> confidence_score x \<and> confidence_score x \<le> 1"
  by (simp add: confidence_score_def)

lemma avg_confidence_segment_dict:
  "avg_confidence (map segment_dict segs) =
     (if segs \<noteq> [] then sum_list (map getattr_avg_logprob segs) / real (length segs) else 0)"
  by (simp add: avg_confidence_def segment_dict_def comp_def)

lemma first_segment_text:
  "first_segment stream = Inr (txt, c) \<Longrightarrow>
     strip txt = (case stream of Inr s # rest \<Rightarrow> strip (seg_text s) | _ \<Rightarrow> [])"
  by (cases stream rule: first_segment.cases)
     (auto simp: strip_Nil strip_strip strip_snoc_space [OF isspace_space])

section \<open>What the handlers return\<close>

lemma full_text_join:
  "strip ([] @ concat (map (\<lambda>s. strip (seg_text s) @ '' '') segs))
     = strip (join '' '' (map (\<lambda>s. strip (seg_text s)) segs))"
  using strip_concat_join [of "map (\<lambda>s. strip (seg_text s)) segs"]
  by (simp add: comp_def)

lemma transcribe_audio_body_success:
  assumes st: "stage env f w = (Inr (p, content), w1)"
    and run: "m w1 (accurate_args p lang) = Inr (map Inr segs, info)"
  shows "transcribe_audio_body env m f lang w =
     (Inr \<lparr>resp_text = strip (join '' '' (map (\<lambda>s. strip (seg_text s)) segs)),
           resp_language = info_language info,
           resp_confidence = confidence_score (avg_confidence (map segment_dict segs)),
           resp_duration = Max (insert 0 (seg_end ` set segs)),
           resp_segments = map segment_dict segs\<rparr>,
      w1\<lparr>files := (files w1)(p := None),
         inference_calls := inference_calls w1 @ [accurate_args p lang]\<rparr>)"
proof -
  from stage_Inr [OF st] have fp: "files w1 p = Some content" by simp
  let ?w2 = "w1\<lparr>inference_calls := inference_calls w1 @ [accurate_args p lang]\<rparr>"
  have r: "run_model m (accurate_args p lang) w1 = (Inr (map Inr segs, info), ?w2)"
    by (simp add: run_model_def run)
  have ps: "process_segments (map Inr segs) [] [] 0 =
      Inr (map segment_dict segs,
           [] @ concat (map (\<lambda>s. strip (seg_text s) @ '' '') segs),
           Max (insert 0 (seg_end ` set segs)))"
    by (simp add: process_segments_map_Inr fold_max_end)
  have u: "unlink p ?w2 = (Inr (), ?w2\<lparr>files := (files ?w2)(p := None)\<rparr>)"
    by (rule unlink_staged [of _ _ content]) (simp add: fp)
  show ?thesis
    unfolding transcribe_audio_body_def
    by (simp add: st r ps u full_text_join del: append_Nil)
qed

lemma transcribe_audio_success:
  assumes cto: "content_type f = Some ctype"
    and ct: "startswith ctype ''audio/''"
    and st: "stage env f w = (Inr (p, content), w1)"
    and run: "m w1 (accurate_args p lang) = Inr (map Inr segs, info)"
  shows "transcribe_audio env (Some m) f lang w =
     (Inr \<lparr>resp_text = strip (join '' '' (map (\<lambda>s. strip (seg_text s)) segs)),
           resp_language = info_language info,
           resp_confidence = confidence_score (avg_confidence (map segment_dict segs)),
           resp_duration = Max (insert 0 (seg_end ` set segs)),
           resp_segments = map segment_dict segs\<rparr>,
      w1\<lparr>files := (files w1)(p := None),
         inference_calls := inference_calls w1 @ [accurate_args p lang]\<rparr>)"
  unfolding transcribe_audio_def
  by (simp add: cto ct transcribe_audio_body_success [where m = m, OF st run])

lemma transcribe_audio_body_Inr:
  assumes "transcribe_audio_body env m f lang w = (Inr r, w')"
  shows "\<exists>content w1 segs info.
           stage env f w = (Inr (tmp_name env, content), w1) \<and>
           m w1 (accurate_args (tmp_name env) lang) = Inr (map Inr segs, info)"
proof -
  from assms obtain p content w1 where st: "stage env f w = (Inr (p, content), w1)"
    unfolding transcribe_audio_body_def
    by (auto split: prod.splits sum.splits)
  from stage_Inr [OF st] have p: "p = tmp_name env" by simp
  from assms st obtain stream info where
    run: "m w1 (accurate_args p lang) = Inr (stream, info)"
    unfolding transcribe_audio_body_def run_model_def
    by (auto split: prod.splits sum.splits)
  from assms st run obtain res where "process_segments stream [] [] 0 = Inr res"
    unfolding transcribe_audio_body_def run_model_def
    by (auto split: prod.splits sum.splits)
  from process_segments_Inr_stream [OF this] obtain segs where "stream = map Inr segs" ..
  with st run p show ?thesis by blast
qed

lemma transcribe_audio_Inr:
  assumes "transcribe_audio env whisper f lang w = (Inr r, w')"
  shows "\<exists>m ctype content w1 segs info.
           whisper = Some m \<and> content_type f = Some ctype \<and> startswith ctype ''audio/'' \<and>
           stage env f w = (Inr (tmp_name env, content), w1) \<and>
           m w1 (accurate_args (tmp_name env) lang) = Inr (map Inr segs, info)"
proof -
  from assms obtain m where m: "whisper = Some m"
    unfolding transcribe_audio_def by (auto split: option.splits)
  from assms m obtain ctype where cto: "content_type f = Some ctype"
    unfolding transcribe_audio_def by (auto split: option.splits)
  from assms m cto have ct: "startswith ctype ''audio/''"
    unfolding transcribe_audio_def by (auto split: if_splits)
  from assms m cto ct have "transcribe_audio_body env m f lang w = (Inr r, w')"
    unfolding transcribe_audio_def by (auto split: prod.splits sum.splits)
  from transcribe_audio_body_Inr [OF this] m cto ct show ?thesis by blast
qed

lemma transcribe_realtime_body_success:
  assumes st: "stage env f w = (Inr (p, content), w1)"
    and run: "m w1 (fast_args p lang) = Inr (stream, info)"
    and fs: "first_segment stream = Inr (txt, c)"
  shows "transcribe_realtime_body env m f lang w =
     (Inr \<lparr>rt_text = strip txt, rt_language = info_language info,
           rt_confidence = max 0 (min 1 ((c + 5) / 5)), rt_is_final = True\<rparr>,
      w1\<lparr>files := (files w1)(p := None),
         inference_calls := inference_calls w1 @ [fast_args p lang]\<rparr>)"
proof -
  from stage_Inr [OF st] have fp: "files w1 p = Some content" by simp
  let ?w2 = "w1\<lparr>inference_calls := inference_calls w1 @ [fast_args p lang]\<rparr>"
  have r: "run_model m (fast_args p lang) w1 = (Inr (stream, info), ?w2)"
    by (simp add: run_model_def run)
  have u: "unlink p ?w2 = (Inr (), ?w2\<lparr>files := (files ?w2)(p := None)\<rparr>)"
    by (rule unlink_staged [of _ _ content]) (simp add: fp)
  show ?thesis
    unfolding transcribe_realtime_body_def
    by (simp add: st r fs u)
qed

lemma transcribe_realtime_body_Inr:
  assumes "transcribe_realtime_body env m f lang w = (Inr q, w')"
  shows "\<exists>content w1 stream info txt c.
           stage env f w = (Inr (tmp_name env, content), w1) \<and>
           m w1 (fast_args (tmp_name env) lang) = Inr (stream, info) \<and>
           first_segment stream = Inr (txt, c)"
proof -
  from assms obtain p content w1 where st: "stage env f w = (Inr (p, content), w1)"
    unfolding transcribe_realtime_body_def
    by (auto split: prod.splits sum.splits)
  from stage_Inr [OF st] have p: "p = tmp_name env" by simp
  from assms st obtain stream info where
    run: "m w1 (fast_args p lang) = Inr (stream, info)"
    unfolding transcribe_realtime_body_def run_model_def
    by (auto split: prod.splits sum.splits)
  from assms st run obtain t c where "first_segment stream = Inr (t, c)"
    unfolding transcribe_realtime_body_def run_model_def
    by (auto split: prod.splits sum.splits)
  with st run p show ?thesis by blast
qed

lemma transcribe_realtime_Inr:
  assumes "transcribe_realtime env whisper f lang w = (Inr q, w')"
  shows "\<exists>m content w1 stream info txt c.
           whisper = Some m \<and>
           stage env f w = (Inr (tmp_name env, content), w1) \<and>
           m w1 (fast_args (tmp_name env) lang) = Inr (stream, info) \<and>
           first_segment stream = Inr (txt, c) \<and>
           q = \<lparr>rt_text = strip txt, rt_language = info_language info,
                rt_confidence = max 0 (min 1 ((c + 5) / 5)), rt_is_final = True\<rparr>"
proof -
  from assms obtain m where m: "whisper = Some m"
    unfolding transcribe_realtime_def by (auto split: option.splits)
  from assms m have b: "transcribe_realtime_body env m f lang w = (Inr q, w')"
    unfolding transcribe_realtime_def by (auto split: prod.splits sum.splits)
  from transcribe_realtime_body_Inr [OF b] obtain content w1 stream info t c where
    st: "stage env f w = (Inr (tmp_name env, content), w1)" and
    run: "m w1 (fast_args (tmp_name env) lang) = Inr (stream, info)" and
    fs: "first_segment stream = Inr (t, c)" by blast
  from transcribe_realtime_body_success [where m = m, OF st run fs] b
  have "q = \<lparr>rt_text = strip t, rt_language = info_language info,
             rt_confidence = max 0 (min 1 ((c + 5) / 5)), rt_is_final = True\<rparr>"
    by simp
  with m st run fs show ?thesis by blast
qed

lemma transcribe_realtime_success:
  assumes st: "stage env f w = (Inr (p, content), w1)"
    and run: "m w1 (fast_args p lang) = Inr (stream, info)"
    and fs: "first_segment stream = Inr (txt, c)"
  shows "transcribe_realtime env (Some m) f lang w =
     (Inr \<lparr>rt_text = strip txt, rt_language = info_language info,
           rt_confidence = max 0 (min 1 ((c + 5) / 5)), rt_is_final = True\<rparr>,
      w1\<lparr>files := (files w1)(p := None),
         inference_calls := inference_calls w1 @ [fast_args p lang]\<rparr>)"
  unfolding transcribe_realtime_def
  by (simp add: transcribe_realtime_body_success [where m = m, OF st run fs])

lemma transcribe_audio_response:
  assumes "transcribe_audio env whisper f lang w = (Inr r, w')"
  shows "\<exists>segs (info :: transcription_info).
           r = \<lparr>resp_text = strip (join '' '' (map (\<lambda>s. strip (seg_text s)) segs)),
                resp_language = info_language info,
                resp_confidence = confidence_score (avg_confidence (map segment_dict segs)),
                resp_duration = Max (insert 0 (seg_end ` set segs)),
                resp_segments = map segment_dict segs\<rparr>"
proof -
  from transcribe_audio_Inr [OF assms] obtain m ctype content w1 segs info where
    m: "whisper = Some m" and cto: "content_type f = Some ctype" and
    ct: "startswith ctype ''audio/''" and
    st: "stage env f w = (Inr (tmp_name env, content), w1)" and
    run: "m w1 (accurate_args (tmp_name env) lang) = Inr (map Inr segs, info)" by blast
  from transcribe_audio_success [where m = m, OF cto ct st run] assms m
  have "r = \<lparr>resp_text = strip (join '' '' (map (\<lambda>s. strip (seg_text s)) segs)),
             resp_language = info_language info,
             resp_confidence = confidence_score (avg_confidence (map segment_dict segs)),
             resp_duration = Max (insert 0 (seg_end ` set segs)),
             resp_segments = map segment_dict segs\<rparr>"
    by simp
  then show ?thesis by blast
qed

text \<open>
  An upload with no content type makes \<^verbatim>\<open>audio_file.content_type.startswith\<close> raise before
  the \<^verbatim>\<open>try\<close> is entered; nothing is staged and no inference is started.
\<close>

lemma transcribe_audio_no_content_type:
  assumes "content_type f = None"
  shows "\<exists>msg. transcribe_audio env (Some m) f lang w = (Inl (AttributeError msg), w)"
  using assms by (simp add: transcribe_audio_def)

section \<open>The claims\<close>

subsection \<open>C1: a transcription with no segments\<close>

text \<open>
  C1 says that when the model emits no segment, \<^verbatim>\<open>/transcribe\<close> returns the text \<^verbatim>\<open>""\<close>,
  confidence 0, duration 0 and no segments. On a clip for which the model yields nothing
  the handler returns confidence 1, not 0: the mean log-probability is taken as 0 when
  there is nothing to average, and \<open>(0 + 5) / 5\<close> is 1.
\<close>

theorem transcribe_audio_zero_segments_confidence_is_one:
  "fst (transcribe_audio
          \<lparr>tmp_name = ''/tmp/tmpk3.wav'', create_fault = None, write_fault = None\<rparr>
          (Some (fixed_model (Inr ([], \<lparr>info_language = ''tl''\<rparr>))))
          \<lparr>filename = ''clip.wav'', content_type = Some ''audio/wav'', read = Inr ''RIFF''\<rparr>
          ''tl'' \<lparr>files = Map.empty, inference_calls = []\<rparr>)
     = Inr \<lparr>resp_text = [], resp_language = ''tl'', resp_confidence = 1,
            resp_duration = 0, resp_segments = []\<rparr> \<and>
   fst (transcribe_audio
          \<lparr>tmp_name = ''/tmp/tmpk3.wav'', create_fault = None, write_fault = None\<rparr>
          (Some (fixed_model (Inr ([], \<lparr>info_language = ''tl''\<rparr>))))
          \<lparr>filename = ''clip.wav'', content_type = Some ''audio/wav'', read = Inr ''RIFF''\<rparr>
          ''tl'' \<lparr>files = Map.empty, inference_calls = []\<rparr>)
     \<noteq> Inr \<lparr>resp_text = [], resp_language = ''tl'', resp_confidence = 0,
            resp_duration = 0, resp_segments = []\<rparr>"
  by (simp add: transcribe_audio_def transcribe_audio_body_def stage_def run_model_def
      fixed_model_def unlink_def startswith_def strip_def lstrip_def rstrip_def
      confidence_score_def avg_confidence_def accurate_args_def)

text \<open>
  C1 as amended: when the request is accepted, the upload is staged and the model emits no
  segment, the response has the empty text, confidence 1, duration 0 and no segments.
\<close>

theorem transcribe_audio_zero_segments:
  assumes "content_type f = Some ctype"
    and "startswith ctype ''audio/''"
    and "stage env f w = (Inr (p, content), w1)"
    and "m w1 (accurate_args p lang) = Inr ([], info)"
  shows "fst (transcribe_audio env (Some m) f lang w) =
           Inr \<lparr>resp_text = [], resp_language = info_language info, resp_confidence = 1,
                resp_duration = 0, resp_segments = []\<rparr>"
proof -
  from assms(4) have run: "m w1 (accurate_args p lang) = Inr (map Inr [], info)" by simp
  show ?thesis
    unfolding transcribe_audio_success [where m = m, OF assms(1) assms(2) assms(3) run]
    by (simp add: strip_Nil confidence_score_def avg_confidence_def)
qed

text \<open>
  C1, witness: the hypotheses of the amended statement hold for a WAV upload answered by a
  model that is silent, and the response is the one the theorem gives.
\<close>

theorem transcribe_audio_zero_segments_witness:
  "startswith ''audio/wav'' ''audio/'' \<and>
   stage \<lparr>tmp_name = ''/tmp/tmpk3.wav'', create_fault = None, write_fault = None\<rparr>
         \<lparr>filename = ''clip.wav'', content_type = Some ''audio/wav'', read = Inr ''RIFF''\<rparr>
         \<lparr>files = Map.empty, inference_calls = []\<rparr>
     = (Inr (''/tmp/tmpk3.wav'', ''RIFF''),
        \<lparr>files = [''/tmp/tmpk3.wav'' \<mapsto> ''RIFF''], inference_calls = []\<rparr>) \<and>
   fixed_model (Inr ([], \<lparr>info_language = ''tl''\<rparr>))
         \<lparr>files = [''/tmp/tmpk3.wav'' \<mapsto> ''RIFF''], inference_calls = []\<rparr>
         (accurate_args ''/tmp/tmpk3.wav'' ''tl'')
     = Inr ([], \<lparr>info_language = ''tl''\<rparr>) \<and>
   fst (transcribe_audio
          \<lparr>tmp_name = ''/tmp/tmpk3.wav'', create_fault = None, write_fault = None\<rparr>
          (Some (fixed_model (Inr ([], \<lparr>info_language = ''tl''\<rparr>))))
          \<lparr>filename = ''clip.wav'', content_type = Some ''audio/wav'', read = Inr ''RIFF''\<rparr>
          ''tl'' \<lparr>files = Map.empty, inference_calls = []\<rparr>)
     = Inr \<lparr>resp_text = [], resp_language = ''tl'', resp_confidence = 1,
            resp_duration = 0, resp_segments = []\<rparr>"
proof -
  have h0: "content_type \<lparr>filename = ''clip.wav'', content_type = Some ''audio/wav'',
                          read = Inr ''RIFF''\<rparr> = Some ''audio/wav''"
    by simp
  have h1: "startswith ''audio/wav'' ''audio/''"
    by (simp add: startswith_def)
  have h2: "stage \<lparr>tmp_name = ''/tmp/tmpk3.wav'', create_fault = None, write_fault = None\<rparr>
         \<lparr>filename = ''clip.wav'', content_type = Some ''audio/wav'', read = Inr ''RIFF''\<rparr>
         \<lparr>files = Map.empty, inference_calls = []\<rparr>
     = (Inr (''/tmp/tmpk3.wav'', ''RIFF''),
        \<lparr>files = [''/tmp/tmpk3.wav'' \<mapsto> ''RIFF''], inference_calls = []\<rparr>)"
    by (simp add: stage_def)
  have h3: "fixed_model (Inr ([], \<lparr>info_language = ''tl''\<rparr>))
         \<lparr>files = [''/tmp/tmpk3.wav'' \<mapsto> ''RIFF''], inference_calls = []\<rparr>
         (accurate_args ''/tmp/tmpk3.wav'' ''tl'')
     = Inr ([], \<lparr>info_language = ''tl''\<rparr>)"
    by (simp add: fixed_model_def)
  from transcribe_audio_zero_segments
         [where m = "fixed_model (Inr ([], \<lparr>info_language = ''tl''\<rparr>))", OF h0 h1 h2 h3]
       h1 h2 h3
  show ?thesis by simp
qed

subsection \<open>C2: the staged file after a failed request\<close>

text \<open>
  C2 says that the staged temporary file is gone when the request completes, on the failure
  paths as well. Both handlers call \<^verbatim>\<open>os.unlink\<close> only after the segment loop, inside the
  \<^verbatim>\<open>try\<close>: when the inference raises, the request ends with status 500 and the file the
  handler wrote is still on disk.
\<close>

theorem staged_file_left_behind_when_inference_fails:
  "transcribe_audio
     \<lparr>tmp_name = ''/tmp/tmpk3.wav'', create_fault = None, write_fault = None\<rparr>
     (Some (fixed_model (Inl ''Invalid data found when processing input'')))
     \<lparr>filename = ''clip.wav'', content_type = Some ''audio/wav'', read = Inr ''RIFF''\<rparr>
     ''tl'' \<lparr>files = Map.empty, inference_calls = []\<rparr>
   = (Inl (HTTPException 500
            ''Transcription failed: Invalid data found when processing input''),
      \<lparr>files = [''/tmp/tmpk3.wav'' \<mapsto> ''RIFF''],
       inference_calls = [accurate_args ''/tmp/tmpk3.wav'' ''tl'']\<rparr>) \<and>
   transcribe_realtime
     \<lparr>tmp_name = ''/tmp/tmpk3.wav'', create_fault = None, write_fault = None\<rparr>
     (Some (fixed_model (Inl ''Invalid data found when processing input'')))
     \<lparr>filename = ''clip.wav'', content_type = Some ''audio/wav'', read = Inr ''RIFF''\<rparr>
     ''tl'' \<lparr>files = Map.empty, inference_calls = []\<rparr>
   = (Inl (HTTPException 500 ''Invalid data found when processing input''),
      \<lparr>files = [''/tmp/tmpk3.wav'' \<mapsto> ''RIFF''],
       inference_calls = [fast_args ''/tmp/tmpk3.wav'' ''tl'']\<rparr>)"
  by (simp add: transcribe_audio_def transcribe_audio_body_def transcribe_realtime_def
      transcribe_realtime_body_def stage_def run_model_def fixed_model_def startswith_def)

subsection \<open>C3: the confidence of a transcription with segments\<close>

text \<open>
  C3: when the request is accepted, the upload is staged and the model emits the segments
  \<open>segs\<close>, at least one, \<^verbatim>\<open>/transcribe\<close> succeeds and the confidence it returns is the
  mean of the segments' log-probabilities, plus 5, over 5, clamped to the interval from 0
  to 1. The log-probability of a segment is its \<^verbatim>\<open>avg_logprob\<close>.
\<close>

theorem transcribe_audio_confidence:
  assumes "content_type f = Some ctype"
    and "startswith ctype ''audio/''"
    and "stage env f w = (Inr (p, content), w1)"
    and "m w1 (accurate_args p lang) = Inr (map Inr segs, info)"
    and "segs \<noteq> []"
  shows "\<exists>r w'. transcribe_audio env (Some m) f lang w = (Inr r, w') \<and>
           resp_confidence r =
             max 0 (min 1 ((sum_list (map getattr_avg_logprob segs) / real (length segs) + 5) / 5))"
  unfolding transcribe_audio_success [where m = m, OF assms(1) assms(2) assms(3) assms(4)]
  using assms(5)
  by (simp add: confidence_score_def avg_confidence_segment_dict)

text \<open>
  C3, witness: one segment \<^verbatim>\<open>{start: 0.0, end: 2.3, text: "hello"}\<close> with log-probability
  \<open>-0.2\<close> gives the confidence \<open>0.96\<close>.
\<close>

theorem transcribe_audio_confidence_witness:
  "\<exists>r w'. transcribe_audio
            \<lparr>tmp_name = ''/tmp/tmpk3.wav'', create_fault = None, write_fault = None\<rparr>
            (Some (fixed_model
               (Inr ([Inr \<lparr>seg_start = 0.0, seg_end = 2.3, seg_text = ''hello'',
                          avg_logprob = Some (- 0.2)\<rparr>], \<lparr>info_language = ''tl''\<rparr>))))
            \<lparr>filename = ''clip.wav'', content_type = Some ''audio/wav'', read = Inr ''RIFF''\<rparr>
            ''tl'' \<lparr>files = Map.empty, inference_calls = []\<rparr> = (Inr r, w') \<and>
          resp_confidence r = 0.96"
proof -
  have h0: "content_type \<lparr>filename = ''clip.wav'', content_type = Some ''audio/wav'',
                          read = Inr ''RIFF''\<rparr> = Some ''audio/wav''"
    by simp
  have h1: "startswith ''audio/wav'' ''audio/''"
    by (simp add: startswith_def)
  have h2: "stage \<lparr>tmp_name = ''/tmp/tmpk3.wav'', create_fault = None, write_fault = None\<rparr>
         \<lparr>filename = ''clip.wav'', content_type = Some ''audio/wav'', read = Inr ''RIFF''\<rparr>
         \<lparr>files = Map.empty, inference_calls = []\<rparr>
     = (Inr (''/tmp/tmpk3.wav'', ''RIFF''),
        \<lparr>files = [''/tmp/tmpk3.wav'' \<mapsto> ''RIFF''], inference_calls = []\<rparr>)"
    by (simp add: stage_def)
  have h3: "fixed_model
         (Inr ([Inr \<lparr>seg_start = 0.0, seg_end = 2.3, seg_text = ''hello'',
                    avg_logprob = Some (- 0.2)\<rparr>], \<lparr>info_language = ''tl''\<rparr>))
         \<lparr>files = [''/tmp/tmpk3.wav'' \<mapsto> ''RIFF''], inference_calls = []\<rparr>
         (accurate_args ''/tmp/tmpk3.wav'' ''tl'')
     = Inr (map Inr [\<lparr>seg_start = 0.0, seg_end = 2.3, seg_text = ''hello'',
                      avg_logprob = Some (- 0.2)\<rparr>], \<lparr>info_language = ''tl''\<rparr>)"
    by (simp add: fixed_model_def)
  have h4: "[\<lparr>seg_start = 0.0, seg_end = 2.3, seg_text = ''hello'',
              avg_logprob = Some (- 0.2)\<rparr>] \<noteq> []"
    by simp
  from transcribe_audio_confidence [where m = "fixed_model
         (Inr ([Inr \<lparr>seg_start = 0.0, seg_end = 2.3, seg_text = ''hello'',
                    avg_logprob = Some (- 0.2)\<rparr>], \<lparr>info_language = ''tl''\<rparr>))",
         OF h0 h1 h2 h3 h4]
  show ?thesis by (simp add: getattr_avg_logprob_def)
qed

subsection \<open>C4: the confidence is between 0 and 1\<close>

text \<open>
  C4: every successful response of \<^verbatim>\<open>/transcribe\<close> and of \<^verbatim>\<open>/transcribe-realtime\<close> carries
  a confidence between 0 and 1, whatever log-probabilities the model reports and however
  many segments it emits.
\<close>

theorem confidence_in_unit_interval:
  "(transcribe_audio env whisper f lang w = (Inr r, w') \<longrightarrow>
      0 \<le> resp_confidence r \<and> resp_confidence r \<le> 1) \<and>
   (transcribe_realtime env whisper f lang w = (Inr q, w'') \<longrightarrow>
      0 \<le> rt_confidence q \<and> rt_confidence q \<le> 1)"
proof (intro conjI impI)
  assume a: "transcribe_audio env whisper f lang w = (Inr r, w')"
  from transcribe_audio_response [OF a] obtain x where "resp_confidence r = confidence_score x"
    by auto
  with confidence_score_bounds [of x]
  show "0 \<le> resp_confidence r" and "resp_confidence r \<le> 1" by simp_all
next
  assume b: "transcribe_realtime env whisper f lang w = (Inr q, w'')"
  from transcribe_realtime_Inr [OF b] obtain c where
    "rt_confidence q = max 0 (min 1 ((c + 5) / 5))" by auto
  then show "0 \<le> rt_confidence q" and "rt_confidence q \<le> 1" by simp_all
qed

text \<open>
  C4, witness: a segment whose log-probability is \<open>-12.5\<close>, far below \<open>-5\<close>; both handlers
  succeed and report the confidence 0.
\<close>

theorem confidence_in_unit_interval_witness:
  "transcribe_audio
     \<lparr>tmp_name = ''/tmp/tmpk3.wav'', create_fault = None, write_fault = None\<rparr>
     (Some (fixed_model
        (Inr ([Inr \<lparr>seg_start = 0.0, seg_end = 1.5, seg_text = '' uh'',
                   avg_logprob = Some (- 12.5)\<rparr>], \<lparr>info_language = ''tl''\<rparr>))))
     \<lparr>filename = ''clip.wav'', content_type = Some ''audio/wav'', read = Inr ''RIFF''\<rparr>
     ''tl'' \<lparr>files = Map.empty, inference_calls = []\<rparr>
   = (Inr \<lparr>resp_text = ''uh'', resp_language = ''tl'', resp_confidence = 0,
           resp_duration = 1.5,
           resp_segments = [\<lparr>sd_start = 0.0, sd_end = 1.5, sd_text = ''uh'',
                             sd_confidence = - 12.5\<rparr>]\<rparr>,
      \<lparr>files = Map.empty, inference_calls = [accurate_args ''/tmp/tmpk3.wav'' ''tl'']\<rparr>) \<and>
   transcribe_realtime
     \<lparr>tmp_name = ''/tmp/tmpk3.wav'', create_fault = None, write_fault = None\<rparr>
     (Some (fixed_model
        (Inr ([Inr \<lparr>seg_start = 0.0, seg_end = 1.5, seg_text = '' uh'',
                   avg_logprob = Some (- 12.5)\<rparr>], \<lparr>info_language = ''tl''\<rparr>))))
     \<lparr>filename = ''clip.wav'', content_type = Some ''audio/wav'', read = Inr ''RIFF''\<rparr>
     ''tl'' \<lparr>files = Map.empty, inference_calls = []\<rparr>
   = (Inr \<lparr>rt_text = ''uh'', rt_language = ''tl'', rt_confidence = 0, rt_is_final = True\<rparr>,
      \<lparr>files = Map.empty, inference_calls = [fast_args ''/tmp/tmpk3.wav'' ''tl'']\<rparr>) \<and>
   (0::real) \<le> resp_confidence \<lparr>resp_text = ''uh'', resp_language = ''tl'', resp_confidence = 0,
           resp_duration = 1.5,
           resp_segments = [\<lparr>sd_start = 0.0, sd_end = 1.5, sd_text = ''uh'',
                             sd_confidence = - 12.5\<rparr>]\<rparr> \<and>
   rt_confidence \<lparr>rt_text = ''uh'', rt_language = ''tl'', rt_confidence = 0,
                  rt_is_final = True\<rparr> \<le> 1"
proof -
  have a: "transcribe_audio
     \<lparr>tmp_name = ''/tmp/tmpk3.wav'', create_fault = None, write_fault = None\<rparr>
     (Some (fixed_model
        (Inr ([Inr \<lparr>seg_start = 0.0, seg_end = 1.5, seg_text = '' uh'',
                   avg_logprob = Some (- 12.5)\<rparr>], \<lparr>info_language = ''tl''\<rparr>))))
     \<lparr>filename = ''clip.wav'', content_type = Some ''audio/wav'', read = Inr ''RIFF''\<rparr>
     ''tl'' \<lparr>files = Map.empty, inference_calls = []\<rparr>
   = (Inr \<lparr>resp_text = ''uh'', resp_language = ''tl'', resp_confidence = 0,
           resp_duration = 1.5,
           resp_segments = [\<lparr>sd_start = 0.0, sd_end = 1.5, sd_text = ''uh'',
                             sd_confidence = - 12.5\<rparr>]\<rparr>,
      \<lparr>files = Map.empty, inference_calls = [accurate_args ''/tmp/tmpk3.wav'' ''tl'']\<rparr>)"
    by (simp add: transcribe_audio_def transcribe_audio_body_def stage_def run_model_def
        fixed_model_def unlink_def startswith_def strip_def lstrip_def rstrip_def isspace_def
        confidence_score_def avg_confidence_def segment_dict_def getattr_avg_logprob_def)
  have b: "transcribe_realtime
     \<lparr>tmp_name = ''/tmp/tmpk3.wav'', create_fault = None, write_fault = None\<rparr>
     (Some (fixed_model
        (Inr ([Inr \<lparr>seg_start = 0.0, seg_end = 1.5, seg_text = '' uh'',
                   avg_logprob = Some (- 12.5)\<rparr>], \<lparr>info_language = ''tl''\<rparr>))))
     \<lparr>filename = ''clip.wav'', content_type = Some ''audio/wav'', read = Inr ''RIFF''\<rparr>
     ''tl'' \<lparr>files = Map.empty, inference_calls = []\<rparr>
   = (Inr \<lparr>rt_text = ''uh'', rt_language = ''tl'', rt_confidence = 0, rt_is_final = True\<rparr>,
      \<lparr>files = Map.empty, inference_calls = [fast_args ''/tmp/tmpk3.wav'' ''tl'']\<rparr>)"
    by (simp add: transcribe_realtime_def transcribe_realtime_body_def stage_def run_model_def
        fixed_model_def unlink_def strip_def lstrip_def rstrip_def isspace_def
        getattr_avg_logprob_def)
  from confidence_in_unit_interval [of
     "\<lparr>tmp_name = ''/tmp/tmpk3.wav'', create_fault = None, write_fault = None\<rparr>"
     "Some (fixed_model
        (Inr ([Inr \<lparr>seg_start = 0.0, seg_end = 1.5, seg_text = '' uh'',
                   avg_logprob = Some (- 12.5)\<rparr>], \<lparr>info_language = ''tl''\<rparr>)))"
     "\<lparr>filename = ''clip.wav'', content_type = Some ''audio/wav'', read = Inr ''RIFF''\<rparr>"
     "''tl''" "\<lparr>files = Map.empty, inference_calls = []\<rparr>"] a b
  show ?thesis by simp
qed

subsection \<open>C5: the text of a transcription\<close>

text \<open>
  C5 says that the text is the trimmed segment texts joined by single spaces, with trailing
  whitespace stripped. The handler ends with \<^verbatim>\<open>full_text.strip()\<close>, which strips at both
  ends: when the first segment is blank and the second reads \<^verbatim>\<open>" kumusta"\<close>, the joined
  texts are \<^verbatim>\<open>" kumusta"\<close>, and stay so with trailing whitespace stripped, but the handler
  returns \<^verbatim>\<open>"kumusta"\<close>.
\<close>

theorem transcribe_audio_text_strips_leading_whitespace:
  "fst (transcribe_audio
          \<lparr>tmp_name = ''/tmp/tmpk3.wav'', create_fault = None, write_fault = None\<rparr>
          (Some (fixed_model
             (Inr ([Inr \<lparr>seg_start = 0.0, seg_end = 1.0, seg_text = '' '',
                        avg_logprob = Some (- 0.5)\<rparr>,
                    Inr \<lparr>seg_start = 1.0, seg_end = 2.0, seg_text = '' kumusta'',
                        avg_logprob = Some (- 0.5)\<rparr>], \<lparr>info_language = ''tl''\<rparr>))))
          \<lparr>filename = ''clip.wav'', content_type = Some ''audio/wav'', read = Inr ''RIFF''\<rparr>
          ''tl'' \<lparr>files = Map.empty, inference_calls = []\<rparr>)
     = Inr \<lparr>resp_text = ''kumusta'', resp_language = ''tl'', resp_confidence = 0.9,
            resp_duration = 2.0,
            resp_segments = [\<lparr>sd_start = 0.0, sd_end = 1.0, sd_text = [],
                              sd_confidence = - 0.5\<rparr>,
                             \<lparr>sd_start = 1.0, sd_end = 2.0, sd_text = ''kumusta'',
                              sd_confidence = - 0.5\<rparr>]\<rparr> \<and>
   rstrip (join '' '' [strip '' '', strip '' kumusta'']) = '' kumusta'' \<and>
   ''kumusta'' \<noteq> '' kumusta''"
  by (simp add: transcribe_audio_def transcribe_audio_body_def stage_def run_model_def
      fixed_model_def unlink_def startswith_def strip_def lstrip_def rstrip_def isspace_def
      confidence_score_def avg_confidence_def segment_dict_def getattr_avg_logprob_def)

text \<open>
  C5 as amended: when the request is accepted, the upload is staged and the model emits the
  segments \<open>segs\<close>, \<^verbatim>\<open>/transcribe\<close> succeeds and its text is the segment texts, each
  trimmed, joined in arrival order by single spaces, with leading and trailing whitespace
  stripped from the result.
\<close>

theorem transcribe_audio_text:
  assumes "content_type f = Some ctype"
    and "startswith ctype ''audio/''"
    and "stage env f w = (Inr (p, content), w1)"
    and "m w1 (accurate_args p lang) = Inr (map Inr segs, info)"
  shows "\<exists>r w'. transcribe_audio env (Some m) f lang w = (Inr r, w') \<and>
           resp_text r = strip (join '' '' (map (\<lambda>s. strip (seg_text s)) segs))"
  unfolding transcribe_audio_success [where m = m, OF assms]
  by simp

text \<open>
  C5, witness: the segments \<^verbatim>\<open>" magandang "\<close> and \<^verbatim>\<open>" umaga"\<close> give the text
  \<^verbatim>\<open>"magandang umaga"\<close>.
\<close>

theorem transcribe_audio_text_witness:
  "\<exists>r w'. transcribe_audio
            \<lparr>tmp_name = ''/tmp/tmpk3.wav'', create_fault = None, write_fault = None\<rparr>
            (Some (fixed_model
               (Inr ([Inr \<lparr>seg_start = 0.0, seg_end = 1.0, seg_text = '' magandang '',
                          avg_logprob = Some (- 0.5)\<rparr>,
                      Inr \<lparr>seg_start = 1.0, seg_end = 2.0, seg_text = '' umaga'',
                          avg_logprob = Some (- 0.5)\<rparr>], \<lparr>info_language = ''tl''\<rparr>))))
            \<lparr>filename = ''clip.wav'', content_type = Some ''audio/wav'', read = Inr ''RIFF''\<rparr>
            ''tl'' \<lparr>files = Map.empty, inference_calls = []\<rparr> = (Inr r, w') \<and>
          resp_text r = ''magandang umaga''"
proof -
  have h0: "content_type \<lparr>filename = ''clip.wav'', content_type = Some ''audio/wav'',
                          read = Inr ''RIFF''\<rparr> = Some ''audio/wav''"
    by simp
  have h1: "startswith ''audio/wav'' ''audio/''"
    by (simp add: startswith_def)
  have h2: "stage \<lparr>tmp_name = ''/tmp/tmpk3.wav'', create_fault = None, write_fault = None\<rparr>
         \<lparr>filename = ''clip.wav'', content_type = Some ''audio/wav'', read = Inr ''RIFF''\<rparr>
         \<lparr>files = Map.empty, inference_calls = []\<rparr>
     = (Inr (''/tmp/tmpk3.wav'', ''RIFF''),
        \<lparr>files = [''/tmp/tmpk3.wav'' \<mapsto> ''RIFF''], inference_calls = []\<rparr>)"
    by (simp add: stage_def)
  have h3: "fixed_model
         (Inr ([Inr \<lparr>seg_start = 0.0, seg_end = 1.0, seg_text = '' magandang '',
                    avg_logprob = Some (- 0.5)\<rparr>,
                Inr \<lparr>seg_start = 1.0, seg_end = 2.0, seg_text = '' umaga'',
                    avg_logprob = Some (- 0.5)\<rparr>], \<lparr>info_language = ''tl''\<rparr>))
         \<lparr>files = [''/tmp/tmpk3.wav'' \<mapsto> ''RIFF''], inference_calls = []\<rparr>
         (accurate_args ''/tmp/tmpk3.wav'' ''tl'')
     = Inr (map Inr [\<lparr>seg_start = 0.0, seg_end = 1.0, seg_text = '' magandang '',
                      avg_logprob = Some (- 0.5)\<rparr>,
                     \<lparr>seg_start = 1.0, seg_end = 2.0, seg_text = '' umaga'',
                      avg_logprob = Some (- 0.5)\<rparr>], \<lparr>info_language = ''tl''\<rparr>)"
    by (simp add: fixed_model_def)
  have h4: "strip (join '' '' (map (\<lambda>s. strip (seg_text s))
              [\<lparr>seg_start = 0.0, seg_end = 1.0, seg_text = '' magandang '',
                avg_logprob = Some (- 0.5)\<rparr>,
               \<lparr>seg_start = 1.0, seg_end = 2.0, seg_text = '' umaga'',
                avg_logprob = Some (- 0.5)\<rparr>])) = ''magandang umaga''"
    by (simp add: strip_def lstrip_def rstrip_def isspace_def)
  from transcribe_audio_text [where m = "fixed_model
         (Inr ([Inr \<lparr>seg_start = 0.0, seg_end = 1.0, seg_text = '' magandang '',
                    avg_logprob = Some (- 0.5)\<rparr>,
                Inr \<lparr>seg_start = 1.0, seg_end = 2.0, seg_text = '' umaga'',
                    avg_logprob = Some (- 0.5)\<rparr>], \<lparr>info_language = ''tl''\<rparr>))",
         OF h0 h1 h2 h3]
  show ?thesis unfolding h4 .
qed

subsection \<open>C6: the duration of a transcription\<close>





subsection \<open>C7: uploads that are not audio\<close>

text \<open>
  C7 says that every \<^verbatim>\<open>/transcribe\<close> request whose content type does not begin with
  \<^verbatim>\<open>audio/\<close> fails with the invalid-input error (status 400). The handler checks first that
  the model is loaded: with no model, a \<^verbatim>\<open>text/plain\<close> upload is answered with status 503.
\<close>

theorem transcribe_audio_model_check_comes_first:
  "\<not> startswith ''text/plain'' ''audio/'' \<and>
   transcribe_audio
     \<lparr>tmp_name = ''/tmp/tmpk3.wav'', create_fault = None, write_fault = None\<rparr>
     None
     \<lparr>filename = ''notes.txt'', content_type = Some ''text/plain'', read = Inr ''hello''\<rparr>
     ''tl'' \<lparr>files = Map.empty, inference_calls = []\<rparr>
   = (Inl (HTTPException 503 ''Whisper model not loaded. Check service health.''),
      \<lparr>files = Map.empty, inference_calls = []\<rparr>) \<and>
   HTTPException 503 ''Whisper model not loaded. Check service health.''
     \<noteq> HTTPException 400 ''Invalid file type: text/plain. Expected audio file.''"
  by (simp add: transcribe_audio_def startswith_def)

text \<open>
  C7 as amended: while the model is loaded, every \<^verbatim>\<open>/transcribe\<close> request that declares a
  content type which does not begin with \<^verbatim>\<open>audio/\<close> fails with status 400 and a detail that
  names the content type; the world is returned as it was, so no file has been staged and
  no inference has been started. An upload that declares no content type is not covered.
\<close>

theorem transcribe_audio_rejects_non_audio:
  assumes "content_type f = Some ctype"
    and "\<not> startswith ctype ''audio/''"
  shows "transcribe_audio env (Some m) f lang w =
           (Inl (HTTPException 400
                  (''Invalid file type: '' @ ctype @ ''. Expected audio file.'')), w)"
  using assms by (simp add: transcribe_audio_def)

text \<open>
  C7, witness: a \<^verbatim>\<open>text/plain\<close> upload, with a model loaded.
\<close>

theorem transcribe_audio_rejects_non_audio_witness:
  "\<not> startswith ''text/plain'' ''audio/'' \<and>
   transcribe_audio
     \<lparr>tmp_name = ''/tmp/tmpk3.wav'', create_fault = None, write_fault = None\<rparr>
     (Some (fixed_model (Inr ([], \<lparr>info_language = ''tl''\<rparr>))))
     \<lparr>filename = ''notes.txt'', content_type = Some ''text/plain'', read = Inr ''hello''\<rparr>
     ''tl'' \<lparr>files = Map.empty, inference_calls = []\<rparr>
   = (Inl (HTTPException 400 ''Invalid file type: text/plain. Expected audio file.''),
      \<lparr>files = Map.empty, inference_calls = []\<rparr>)"
proof -
  have h0: "content_type \<lparr>filename = ''notes.txt'', content_type = Some ''text/plain'',
                          read = Inr ''hello''\<rparr> = Some ''text/plain''"
    by simp
  have h1: "\<not> startswith ''text/plain'' ''audio/''"
    by (simp add: startswith_def)
  from transcribe_audio_rejects_non_audio [OF h0 h1] h1 show ?thesis by simp
qed

subsection \<open>C8: the realtime path reads one segment\<close>

text \<open>
  C8: every successful response of \<^verbatim>\<open>/transcribe-realtime\<close> has \<^verbatim>\<open>is_final\<close> true, and its
  text is the trimmed text of the first segment of the model's output, or empty when
  there is none; the segments after the first do not occur in it.
\<close>

theorem transcribe_realtime_first_segment_only:
  assumes "transcribe_realtime env whisper f lang w = (Inr q, w')"
  shows "rt_is_final q \<and>
         (\<exists>m content w1 stream info.
            whisper = Some m \<and>
            stage env f w = (Inr (tmp_name env, content), w1) \<and>
            m w1 (fast_args (tmp_name env) lang) = Inr (stream, info) \<and>
            rt_text q = (case stream of Inr s # rest \<Rightarrow> strip (seg_text s) | _ \<Rightarrow> []))"
proof -
  from transcribe_realtime_Inr [OF assms] obtain m content w1 stream info t c where
    m: "whisper = Some m" and
    st: "stage env f w = (Inr (tmp_name env, content), w1)" and
    run: "m w1 (fast_args (tmp_name env) lang) = Inr (stream, info)" and
    fs: "first_segment stream = Inr (t, c)" and
    q: "q = \<lparr>rt_text = strip t, rt_language = info_language info,
              rt_confidence = max 0 (min 1 ((c + 5) / 5)), rt_is_final = True\<rparr>"
    by blast
  from q first_segment_text [OF fs] have
    "rt_text q = (case stream of Inr s # rest \<Rightarrow> strip (seg_text s) | _ \<Rightarrow> [])"
    by simp
  with m st run have "\<exists>m content w1 stream info.
            whisper = Some m \<and>
            stage env f w = (Inr (tmp_name env, content), w1) \<and>
            m w1 (fast_args (tmp_name env) lang) = Inr (stream, info) \<and>
            rt_text q = (case stream of Inr s # rest \<Rightarrow> strip (seg_text s) | _ \<Rightarrow> [])"
    by blast
  with q show ?thesis by simp
qed

text \<open>
  C8, witness: the model emits \<^verbatim>\<open>" magandang"\<close> and then \<^verbatim>\<open>" umaga"\<close>; the response carries
  \<^verbatim>\<open>"magandang"\<close> alone.
\<close>

theorem transcribe_realtime_first_segment_only_witness:
  "transcribe_realtime
     \<lparr>tmp_name = ''/tmp/tmpk3.wav'', create_fault = None, write_fault = None\<rparr>
     (Some (fixed_model
        (Inr ([Inr \<lparr>seg_start = 0.0, seg_end = 1.0, seg_text = '' magandang'',
                   avg_logprob = Some (- 0.5)\<rparr>,
               Inr \<lparr>seg_start = 1.0, seg_end = 2.0, seg_text = '' umaga'',
                   avg_logprob = Some (- 0.5)\<rparr>], \<lparr>info_language = ''tl''\<rparr>))))
     \<lparr>filename = ''chunk.wav'', content_type = Some ''audio/wav'', read = Inr ''RIFF''\<rparr>
     ''tl'' \<lparr>files = Map.empty, inference_calls = []\<rparr>
   = (Inr \<lparr>rt_text = ''magandang'', rt_language = ''tl'', rt_confidence = 0.9,
           rt_is_final = True\<rparr>,
      \<lparr>files = Map.empty, inference_calls = [fast_args ''/tmp/tmpk3.wav'' ''tl'']\<rparr>) \<and>
   rt_is_final \<lparr>rt_text = ''magandang'', rt_language = ''tl'', rt_confidence = 0.9,
                rt_is_final = True\<rparr>"
proof -
  have a: "transcribe_realtime
     \<lparr>tmp_name = ''/tmp/tmpk3.wav'', create_fault = None, write_fault = None\<rparr>
     (Some (fixed_model
        (Inr ([Inr \<lparr>seg_start = 0.0, seg_end = 1.0, seg_text = '' magandang'',
                   avg_logprob = Some (- 0.5)\<rparr>,
               Inr \<lparr>seg_start = 1.0, seg_end = 2.0, seg_text = '' umaga'',
                   avg_logprob = Some (- 0.5)\<rparr>], \<lparr>info_language = ''tl''\<rparr>))))
     \<lparr>filename = ''chunk.wav'', content_type = Some ''audio/wav'', read = Inr ''RIFF''\<rparr>
     ''tl'' \<lparr>files = Map.empty, inference_calls = []\<rparr>
   = (Inr \<lparr>rt_text = ''magandang'', rt_language = ''tl'', rt_confidence = 0.9,
           rt_is_final = True\<rparr>,
      \<lparr>files = Map.empty, inference_calls = [fast_args ''/tmp/tmpk3.wav'' ''tl'']\<rparr>)"
    by (simp add: transcribe_realtime_def transcribe_realtime_body_def stage_def run_model_def
        fixed_model_def unlink_def strip_def lstrip_def rstrip_def isspace_def
        getattr_avg_logprob_def)
  from transcribe_realtime_first_segment_only [OF a] a show ?thesis by simp
qed

subsection \<open>C9: the realtime path does not look at the content type\<close>

text \<open>
  C9: \<^verbatim>\<open>/transcribe-realtime\<close> returns the same outcome whatever content type the upload
  declares, or none, and it never answers with status 400. With the model loaded it goes on
  to stage the upload: when reading the upload raises, the answer is status 500 and the
  temporary file has been created; when the staging succeeds, the model is called on the
  world in which the temporary file holds the uploaded bytes, the call is recorded, and the
  answer is what the model's output gives (status 500 with the staged file still there
  when the model or its generator raises, the response otherwise).
\<close>

theorem transcribe_realtime_no_content_type_check:
  "transcribe_realtime env whisper (f\<lparr>content_type := ct\<rparr>) lang w =
     transcribe_realtime env whisper f lang w \<and>
   (\<forall>d. fst (transcribe_realtime env whisper f lang w) \<noteq> Inl (HTTPException 400 d)) \<and>
   (create_fault env = None \<and> read f = Inl e \<longrightarrow>
      transcribe_realtime env (Some m) (f\<lparr>content_type := ct\<rparr>) lang w =
        (Inl (HTTPException 500 e), w\<lparr>files := (files w)(tmp_name env \<mapsto> [])\<rparr>)) \<and>
   (create_fault env = None \<and> read f = Inr content \<and> write_fault env = None \<longrightarrow>
      transcribe_realtime env (Some m) (f\<lparr>content_type := ct\<rparr>) lang w =
        (case m (w\<lparr>files := (files w)(tmp_name env \<mapsto> content)\<rparr>)
                (fast_args (tmp_name env) lang) of
           Inl e' \<Rightarrow>
             (Inl (HTTPException 500 e'),
              w\<lparr>files := (files w)(tmp_name env \<mapsto> content),
                inference_calls := inference_calls w @ [fast_args (tmp_name env) lang]\<rparr>)
         | Inr (stream, info) \<Rightarrow>
             (case first_segment stream of
                Inl e' \<Rightarrow>
                  (Inl (HTTPException 500 e'),
                   w\<lparr>files := (files w)(tmp_name env \<mapsto> content),
                     inference_calls := inference_calls w @ [fast_args (tmp_name env) lang]\<rparr>)
              | Inr (t, c) \<Rightarrow>
                  (Inr \<lparr>rt_text = strip t, rt_language = info_language info,
                        rt_confidence = max 0 (min 1 ((c + 5) / 5)), rt_is_final = True\<rparr>,
                   w\<lparr>files := (files w)(tmp_name env := None),
                     inference_calls := inference_calls w @ [fast_args (tmp_name env) lang]\<rparr>))))"
proof (intro conjI allI impI)
  have "stage env (f\<lparr>content_type := ct\<rparr>) w = stage env f w"
    by (simp add: stage_def Let_def split: option.splits)
  then have "transcribe_realtime_body env m' (f\<lparr>content_type := ct\<rparr>) lang w =
      transcribe_realtime_body env m' f lang w" for m'
    by (simp add: transcribe_realtime_body_def)
  then show "transcribe_realtime env whisper (f\<lparr>content_type := ct\<rparr>) lang w =
      transcribe_realtime env whisper f lang w"
    by (cases whisper) (simp_all add: transcribe_realtime_def)
next
  fix d
  show "fst (transcribe_realtime env whisper f lang w) \<noteq> Inl (HTTPException 400 d)"
    by (simp add: transcribe_realtime_def split: option.splits prod.splits sum.splits)
next
  assume "create_fault env = None \<and> read f = Inl e"
  then show "transcribe_realtime env (Some m) (f\<lparr>content_type := ct\<rparr>) lang w =
      (Inl (HTTPException 500 e), w\<lparr>files := (files w)(tmp_name env \<mapsto> [])\<rparr>)"
    by (simp add: transcribe_realtime_def transcribe_realtime_body_def stage_def)
next
  assume "create_fault env = None \<and> read f = Inr content \<and> write_fault env = None"
  then have st: "stage env (f\<lparr>content_type := ct\<rparr>) w =
      (Inr (tmp_name env, content), w\<lparr>files := (files w)(tmp_name env \<mapsto> content)\<rparr>)"
    by (simp add: stage_def)
  show "transcribe_realtime env (Some m) (f\<lparr>content_type := ct\<rparr>) lang w =
        (case m (w\<lparr>files := (files w)(tmp_name env \<mapsto> content)\<rparr>)
                (fast_args (tmp_name env) lang) of
           Inl e' \<Rightarrow>
             (Inl (HTTPException 500 e'),
              w\<lparr>files := (files w)(tmp_name env \<mapsto> content),
                inference_calls := inference_calls w @ [fast_args (tmp_name env) lang]\<rparr>)
         | Inr (stream, info) \<Rightarrow>
             (case first_segment stream of
                Inl e' \<Rightarrow>
                  (Inl (HTTPException 500 e'),
                   w\<lparr>files := (files w)(tmp_name env \<mapsto> content),
                     inference_calls := inference_calls w @ [fast_args (tmp_name env) lang]\<rparr>)
              | Inr (t, c) \<Rightarrow>
                  (Inr \<lparr>rt_text = strip t, rt_language = info_language info,
                        rt_confidence = max 0 (min 1 ((c + 5) / 5)), rt_is_final = True\<rparr>,
                   w\<lparr>files := (files w)(tmp_name env := None),
                     inference_calls := inference_calls w @ [fast_args (tmp_name env) lang]\<rparr>)))"
    unfolding transcribe_realtime_def transcribe_realtime_body_def
    by (simp add: st run_model_def unlink_def split: sum.splits prod.splits)
qed

text \<open>
  C9, witness: two \<^verbatim>\<open>text/plain\<close> uploads with the model loaded. Reading the first raises: the
  answer is status 500 and the empty temporary file is on disk. The second is staged and
  passed to the model, which rejects the bytes: the answer is status 500, not 400, the
  staged file is on disk and the call is recorded.
\<close>

theorem transcribe_realtime_no_content_type_check_witness:
  "transcribe_realtime
     \<lparr>tmp_name = ''/tmp/tmpk3.wav'', create_fault = None, write_fault = None\<rparr>
     (Some (fixed_model (Inl ''Invalid data found when processing input'')))
     \<lparr>filename = ''notes.txt'', content_type = Some ''text/plain'',
      read = Inl ''client disconnected''\<rparr>
     ''tl'' \<lparr>files = Map.empty, inference_calls = []\<rparr>
   = (Inl (HTTPException 500 ''client disconnected''),
      \<lparr>files = [''/tmp/tmpk3.wav'' \<mapsto> []], inference_calls = []\<rparr>) \<and>
   transcribe_realtime
     \<lparr>tmp_name = ''/tmp/tmpk3.wav'', create_fault = None, write_fault = None\<rparr>
     (Some (fixed_model (Inl ''Invalid data found when processing input'')))
     \<lparr>filename = ''notes.txt'', content_type = Some ''text/plain'', read = Inr ''hello''\<rparr>
     ''tl'' \<lparr>files = Map.empty, inference_calls = []\<rparr>
   = (Inl (HTTPException 500 ''Invalid data found when processing input''),
      \<lparr>files = [''/tmp/tmpk3.wav'' \<mapsto> ''hello''],
       inference_calls = [fast_args ''/tmp/tmpk3.wav'' ''tl'']\<rparr>)"
proof -
  have a: "create_fault \<lparr>tmp_name = ''/tmp/tmpk3.wav'', create_fault = None,
                          write_fault = None\<rparr> = None \<and>
           read \<lparr>filename = ''notes.txt'', content_type = Some ''text/plain'',
                 read = Inl ''client disconnected''\<rparr> = Inl ''client disconnected''"
    by simp
  have b: "create_fault \<lparr>tmp_name = ''/tmp/tmpk3.wav'', create_fault = None,
                          write_fault = None\<rparr> = None \<and>
           read \<lparr>filename = ''notes.txt'', content_type = Some ''text/plain'', read = Inr ''hello''\<rparr>
             = Inr ''hello'' \<and>
           write_fault \<lparr>tmp_name = ''/tmp/tmpk3.wav'', create_fault = None,
                         write_fault = None\<rparr> = None"
    by simp
  note thm1 = transcribe_realtime_no_content_type_check
     [where m = "fixed_model (Inl ''Invalid data found when processing input'')"
        and env = "\<lparr>tmp_name = ''/tmp/tmpk3.wav'', create_fault = None, write_fault = None\<rparr>"
        and f = "\<lparr>filename = ''notes.txt'', content_type = Some ''text/plain'',
                  read = Inl ''client disconnected''\<rparr>"
        and ct = "Some ''text/plain''" and e = "''client disconnected''"
        and w = "\<lparr>files = Map.empty, inference_calls = []\<rparr>" and lang = "''tl''"]
  note thm2 = transcribe_realtime_no_content_type_check
     [where m = "fixed_model (Inl ''Invalid data found when processing input'')"
        and env = "\<lparr>tmp_name = ''/tmp/tmpk3.wav'', create_fault = None, write_fault = None\<rparr>"
        and f = "\<lparr>filename = ''notes.txt'', content_type = Some ''text/plain'', read = Inr ''hello''\<rparr>"
        and ct = "Some ''text/plain''" and content = "''hello''"
        and w = "\<lparr>files = Map.empty, inference_calls = []\<rparr>" and lang = "''tl''"]
  from thm1 a have
    "transcribe_realtime
       \<lparr>tmp_name = ''/tmp/tmpk3.wav'', create_fault = None, write_fault = None\<rparr>
       (Some (fixed_model (Inl ''Invalid data found when processing input'')))
       \<lparr>filename = ''notes.txt'', content_type = Some ''text/plain'',
        read = Inl ''client disconnected''\<rparr>
       ''tl'' \<lparr>files = Map.empty, inference_calls = []\<rparr>
     = (Inl (HTTPException 500 ''client disconnected''),
        \<lparr>files = [''/tmp/tmpk3.wav'' \<mapsto> []], inference_calls = []\<rparr>)"
    by simp
  moreover from thm2 b have
    "transcribe_realtime
       \<lparr>tmp_name = ''/tmp/tmpk3.wav'', create_fault = None, write_fault = None\<rparr>
       (Some (fixed_model (Inl ''Invalid data found when processing input'')))
       \<lparr>filename = ''notes.txt'', content_type = Some ''text/plain'', read = Inr ''hello''\<rparr>
       ''tl'' \<lparr>files = Map.empty, inference_calls = []\<rparr>
     = (Inl (HTTPException 500 ''Invalid data found when processing input''),
        \<lparr>files = [''/tmp/tmpk3.wav'' \<mapsto> ''hello''],
         inference_calls = [fast_args ''/tmp/tmpk3.wav'' ''tl'']\<rparr>)"
    by (simp add: fixed_model_def)
  ultimately show ?thesis by simp
qed

subsection \<open>C10: a realtime chunk with no segments\<close>

text \<open>
  C10: when the upload is staged and the model emits no segment, \<^verbatim>\<open>/transcribe-realtime\<close>
  returns the empty text and confidence 1: \<^verbatim>\<open>confidence\<close> keeps its initial value \<open>0.0\<close>,
  and \<open>(0 + 5) / 5\<close> is 1.
\<close>

theorem transcribe_realtime_zero_segments:
  assumes "stage env f w = (Inr (p, content), w1)"
    and "m w1 (fast_args p lang) = Inr ([], info)"
  shows "fst (transcribe_realtime env (Some m) f lang w) =
           Inr \<lparr>rt_text = [], rt_language = info_language info, rt_confidence = 1.0,
                rt_is_final = True\<rparr>"
proof -
  have fs: "first_segment [] = Inr ([], 0)" by simp
  show ?thesis
    unfolding transcribe_realtime_success [where m = m, OF assms(1) assms(2) fs]
    by (simp add: strip_Nil)
qed

text \<open>
  C10, witness: a WAV chunk answered by a model that is silent.
\<close>

theorem transcribe_realtime_zero_segments_witness:
  "stage \<lparr>tmp_name = ''/tmp/tmpk3.wav'', create_fault = None, write_fault = None\<rparr>
         \<lparr>filename = ''chunk.wav'', content_type = Some ''audio/wav'', read = Inr ''RIFF''\<rparr>
         \<lparr>files = Map.empty, inference_calls = []\<rparr>
     = (Inr (''/tmp/tmpk3.wav'', ''RIFF''),
        \<lparr>files = [''/tmp/tmpk3.wav'' \<mapsto> ''RIFF''], inference_calls = []\<rparr>) \<and>
   fixed_model (Inr ([], \<lparr>info_language = ''tl''\<rparr>))
         \<lparr>files = [''/tmp/tmpk3.wav'' \<mapsto> ''RIFF''], inference_calls = []\<rparr>
         (fast_args ''/tmp/tmpk3.wav'' ''tl'')
     = Inr ([], \<lparr>info_language = ''tl''\<rparr>) \<and>
   fst (transcribe_realtime
          \<lparr>tmp_name = ''/tmp/tmpk3.wav'', create_fault = None, write_fault = None\<rparr>
          (Some (fixed_model (Inr ([], \<lparr>info_language = ''tl''\<rparr>))))
          \<lparr>filename = ''chunk.wav'', content_type = Some ''audio/wav'', read = Inr ''RIFF''\<rparr>
          ''tl'' \<lparr>files = Map.empty, inference_calls = []\<rparr>)
     = Inr \<lparr>rt_text = [], rt_language = ''tl'', rt_confidence = 1.0, rt_is_final = True\<rparr>"
proof -
  have h1: "stage \<lparr>tmp_name = ''/tmp/tmpk3.wav'', create_fault = None, write_fault = None\<rparr>
         \<lparr>filename = ''chunk.wav'', content_type = Some ''audio/wav'', read = Inr ''RIFF''\<rparr>
         \<lparr>files = Map.empty, inference_calls = []\<rparr>
     = (Inr (''/tmp/tmpk3.wav'', ''RIFF''),
        \<lparr>files = [''/tmp/tmpk3.wav'' \<mapsto> ''RIFF''], inference_calls = []\<rparr>)"
    by (simp add: stage_def)
  have h2: "fixed_model (Inr ([], \<lparr>info_language = ''tl''\<rparr>))
         \<lparr>files = [''/tmp/tmpk3.wav'' \<mapsto> ''RIFF''], inference_calls = []\<rparr>
         (fast_args ''/tmp/tmpk3.wav'' ''tl'')
     = Inr ([], \<lparr>info_language = ''tl''\<rparr>)"
    by (simp add: fixed_model_def)
  from transcribe_realtime_zero_segments
         [where m = "fixed_model (Inr ([], \<lparr>info_language = ''tl''\<rparr>))", OF h1 h2] h1 h2
  show ?thesis by simp
qed

end
